theory Spec2Isabelle
  imports Complex_Main
begin

section \<open>Alerta Boreal: ice projection and species risk (app.py)\<close>

text \<open>
  The script app.py loads a yearly series of Arctic sea-ice extent, fits a straight line
  to it, and derives from the extent of a chosen year a loss estimate and a risk level
  for each species, and a state of the ecosystem.

  Numbers: the script computes with IEEE double precision; the embedding computes with
  the real numbers, so every comparison and rounding below is the exact one. Years and
  populations are Python integers (\<open>int\<close>). The exceptions the computation can raise
  are values of \<open>error\<close>.
\<close>

datatype error = ValueError | ZeroDivisionError

subsection \<open>Loading the data (section 2 of the script)\<close>

text \<open>A row of \<open>datos\<close>: the year (column Anio) and the extent (column Millones_km2).\<close>

type_synonym registro = "int \<times> real"

text \<open>
  What reading data/hielo_artico_real.csv gives: \<open>read_csv\<close> raised, the frame lacks
  one of the two columns, or the frame has both columns and these rows.
\<close>

datatype lectura = Fallo | SinColumnas | Tabla "registro list"

definition datos_ejemplo :: "registro list" where
  "datos_ejemplo = [(1980, 7.5), (1990, 6.8), (2000, 5.5), (2010, 4.2), (2020, 3.5)]"

text \<open>
  The try/except of lines 30-40: any exception, also the ValueError raised for missing
  columns, is answered with the sample data; a frame that was read is sorted by year.
  (Rows of the same year keep their order here; pandas promises no order among them.)
\<close>

fun cargar :: "lectura \<Rightarrow> registro list" where
  "cargar Fallo = datos_ejemplo"
| "cargar SinColumnas = datos_ejemplo"
| "cargar (Tabla filas) = sort_key fst filas"

subsection \<open>The linear regression (section 3 of the script)\<close>

text \<open>
  \<open>LinearRegression().fit(X, y)\<close> with one feature and an intercept: the data are
  centred on their means, the slope is the least-squares solution for the centred data
  (the minimum-norm solution, 0, when all centred years are 0), and the intercept is
  \<open>mean y - slope * mean X\<close>. The fit refuses an array with no sample (ValueError) and
  accepts any array with at least one.
\<close>

record regresion =
  coef :: real
  intercept :: real

definition media :: "real list \<Rightarrow> real" where
  "media vs = sum_list vs / of_nat (length vs)"

definition sxy :: "registro list \<Rightarrow> real" where
  "sxy ds = (\<Sum>r\<leftarrow>ds. (of_int (fst r) - media (map (\<lambda>r. of_int (fst r)) ds))
                     * (snd r - media (map snd ds)))"

definition sxx :: "registro list \<Rightarrow> real" where
  "sxx ds = (\<Sum>r\<leftarrow>ds. (of_int (fst r) - media (map (\<lambda>r. of_int (fst r)) ds))\<^sup>2)"

definition fit :: "registro list \<Rightarrow> error + regresion" where
  "fit ds =
     (if ds = [] then Inl ValueError
      else (let a = (if sxx ds = 0 then 0 else sxy ds / sxx ds)
            in Inr \<lparr>coef = a,
                    intercept = media (map snd ds) - a * media (map (\<lambda>r. of_int (fst r)) ds)\<rparr>))"

definition predict :: "regresion \<Rightarrow> int \<Rightarrow> real" where
  "predict m anio = coef m * of_int anio + intercept m"

text \<open>
  \<open>hielo_para_anio\<close> (lines 50-54): the recorded extent of the first row of that year
  when the year is in the column, the prediction of the fitted line otherwise.
\<close>

definition hielo_para_anio :: "registro list \<Rightarrow> regresion \<Rightarrow> int \<Rightarrow> real" where
  "hielo_para_anio ds m anio =
     (case filter (\<lambda>r. fst r = anio) ds of
        r # _ \<Rightarrow> snd r
      | [] \<Rightarrow> predict m anio)"

text \<open>
  The globals of the script once sections 2 and 3 have run: the frame, the fitted
  model and \<open>baseline_hielo\<close>, the maximum of the extent column (line 56).
\<close>

record app =
  datos :: "registro list"
  modelo :: regresion
  baseline_hielo :: real

text \<open>
  The second \<open>[]\<close> branch is never reached: the fit has already raised on an empty frame.
\<close>

definition iniciar :: "lectura \<Rightarrow> error + app" where
  "iniciar l =
     (let ds = cargar l
      in case fit ds of
           Inl e \<Rightarrow> Inl e
         | Inr m \<Rightarrow>
             (case map snd ds of
                [] \<Rightarrow> Inl ValueError
              | v # vs \<Rightarrow> Inr \<lparr>datos = ds, modelo = m, baseline_hielo = fold max vs v\<rparr>))"

subsection \<open>Species (section 4) and the species tab (lines 144-162)\<close>

record especie =
  pop_actual :: int
  vulnerabilidad :: real

definition oso_polar :: especie where
  "oso_polar = \<lparr>pop_actual = 26000, vulnerabilidad = 0.8\<rparr>"

definition foca_anillada :: especie where
  "foca_anillada = \<lparr>pop_actual = 5000000, vulnerabilidad = 0.6\<rparr>"

definition morsa :: especie where
  "morsa = \<lparr>pop_actual = 300000, vulnerabilidad = 0.5\<rparr>"

definition narval :: especie where
  "narval = \<lparr>pop_actual = 80000, vulnerabilidad = 0.4\<rparr>"

definition especies :: "(string \<times> especie) list" where
  "especies = [(''Oso polar'', oso_polar), (''Foca anillada'', foca_anillada),
               (''Morsa'', morsa), (''Narval'', narval)]"

text \<open>
  Python 3's \<open>round\<close> of a float with no digits argument: the nearest integer, a tie
  going to the even one.
\<close>

definition py_round :: "real \<Rightarrow> int" where
  "py_round x =
     (let f = \<lfloor>x\<rfloor>; d = x - of_int f
      in if d < 1/2 then f
         else if 1/2 < d then f + 1
         else if even f then f else f + 1)"

text \<open>
  \<open>frac = max(0.0, hielo / baseline_hielo)\<close> (lines 147 and 176); the division of two
  Python floats raises ZeroDivisionError when the baseline is 0. (The name \<open>frac\<close> is
  the fractional part in HOL, hence the suffix.)
\<close>

definition frac_hielo :: "app \<Rightarrow> int \<Rightarrow> error + real" where
  "frac_hielo st anio =
     (let hielo = hielo_para_anio (datos st) (modelo st) anio
      in if baseline_hielo st = 0 then Inl ZeroDivisionError
         else Inr (max 0 (hielo / baseline_hielo st)))"

definition riesgo_dinamico :: "especie \<Rightarrow> real \<Rightarrow> real" where
  "riesgo_dinamico info fr = vulnerabilidad info * (1 - fr)"

definition perdidos :: "especie \<Rightarrow> real \<Rightarrow> int" where
  "perdidos info fr = py_round (of_int (pop_actual info) * riesgo_dinamico info fr)"

text \<open>Line 152, species tab: \<open>restantes = int(pop_actual - perdidos)\<close>.\<close>

definition restantes :: "especie \<Rightarrow> real \<Rightarrow> int" where
  "restantes info fr = pop_actual info - perdidos info fr"

text \<open>Line 201, map of the ecosystem tab: \<open>restantes = max(0, pop_actual - perdidos)\<close>.\<close>

definition restantes_mapa :: "especie \<Rightarrow> real \<Rightarrow> int" where
  "restantes_mapa info fr = max 0 (pop_actual info - perdidos info fr)"

datatype nivel = Bajo | Moderado | Alto | Critico

definition riesgo_texto :: "real \<Rightarrow> nivel" where
  "riesgo_texto rd =
     (if rd < 0.2 then Bajo
      else if rd < 0.4 then Moderado
      else if rd < 0.7 then Alto
      else Critico)"

text \<open>The colour of the map marker (lines 204-211), as its RGB list.\<close>

definition color :: "real \<Rightarrow> nat list" where
  "color rd =
     (if rd < 0.2 then [0, 200, 0]
      else if rd < 0.4 then [255, 255, 0]
      else if rd < 0.7 then [255, 165, 0]
      else [255, 0, 0])"

text \<open>What the species tab shows for a species and a year.\<close>

record resultado =
  res_hielo :: real
  res_frac :: real
  res_riesgo :: real
  res_perdidos :: int
  res_restantes :: int
  res_texto :: nivel

definition tab_especies :: "app \<Rightarrow> especie \<Rightarrow> int \<Rightarrow> error + resultado" where
  "tab_especies st info anio =
     (case frac_hielo st anio of
        Inl e \<Rightarrow> Inl e
      | Inr fr \<Rightarrow>
          Inr \<lparr>res_hielo = hielo_para_anio (datos st) (modelo st) anio,
               res_frac = fr,
               res_riesgo = riesgo_dinamico info fr,
               res_perdidos = perdidos info fr,
               res_restantes = restantes info fr,
               res_texto = riesgo_texto (riesgo_dinamico info fr)\<rparr>)"

subsection \<open>The ecosystem tab (lines 174-184)\<close>

datatype estado = Estable | EnRiesgo | EcoCritico

definition estado_de :: "real \<Rightarrow> estado" where
  "estado_de hielo_sel =
     (if hielo_sel > 6 then Estable
      else if 4 \<le> hielo_sel \<and> hielo_sel \<le> 6 then EnRiesgo
      else EcoCritico)"

text \<open>
  The tab computes \<open>frac\<close> (line 176) before it classifies the extent, so a baseline
  of 0 raises there and no state is shown.
\<close>

definition tab_ecosistema :: "app \<Rightarrow> int \<Rightarrow> error + estado" where
  "tab_ecosistema st anio =
     (let hielo_sel = hielo_para_anio (datos st) (modelo st) anio
      in case frac_hielo st anio of
           Inl e \<Rightarrow> Inl e
         | Inr fr \<Rightarrow> Inr (estado_de hielo_sel))"

subsection \<open>The script from the reading of the file to the species tab\<close>

text \<open>
  One run of the script: the data are loaded, the model is fitted, and the species tab
  is computed for the selected species and the year of the slider. An exception of
  sections 2 and 3 ends the run.
\<close>

definition ejecutar :: "lectura \<Rightarrow> especie \<Rightarrow> int \<Rightarrow> error + resultado" where
  "ejecutar l info anio =
     (case iniciar l of
        Inl e \<Rightarrow> Inl e
      | Inr st \<Rightarrow> tab_especies st info anio)"

text \<open>The globals of a run on the sample data, with the line fitted to them.\<close>

definition app_ejemplo :: app where
  "app_ejemplo =
     \<lparr>datos = datos_ejemplo,
      modelo = \<lparr>coef = - 0.106, intercept = 217.5\<rparr>,
      baseline_hielo = 7.5\<rparr>"

section \<open>Properties\<close>

subsection \<open>Auxiliary facts\<close>

lemma fit_datos_ejemplo: "fit datos_ejemplo = Inr \<lparr>coef = - 0.106, intercept = 217.5\<rparr>"
  by (simp add: fit_def datos_ejemplo_def sxx_def sxy_def media_def)

lemma iniciar_Fallo: "iniciar Fallo = Inr app_ejemplo"
  by (simp add: iniciar_def fit_datos_ejemplo app_ejemplo_def) (simp add: datos_ejemplo_def)

lemma py_round_le: "x \<le> of_int n \<Longrightarrow> py_round x \<le> n"
proof -
  assume h: "x \<le> of_int n"
  then have f: "\<lfloor>x\<rfloor> \<le> n" by (simp add: floor_le_iff)
  show ?thesis
  proof (cases "\<lfloor>x\<rfloor> = n")
    case True
    with h have "x - of_int \<lfloor>x\<rfloor> \<le> 0" by simp
    then show ?thesis using True by (simp add: py_round_def Let_def)
  next
    case False
    with f have "\<lfloor>x\<rfloor> + 1 \<le> n" by simp
    then show ?thesis by (simp add: py_round_def Let_def)
  qed
qed

lemma py_round_nonneg: "0 \<le> x \<Longrightarrow> 0 \<le> py_round x"
  by (simp add: py_round_def Let_def)

lemma py_round_nearest: "\<bar>of_int (py_round x) - x\<bar> \<le> 1/2"
  unfolding py_round_def Let_def by (auto split: if_splits)

lemma frac_hielo_nonneg: "frac_hielo st anio = Inr fr \<Longrightarrow> 0 \<le> fr"
  by (auto simp: frac_hielo_def Let_def split: if_splits)

lemma riesgo_dinamico_le:
  assumes "0 \<le> fr" "0 \<le> vulnerabilidad info"
  shows "riesgo_dinamico info fr \<le> vulnerabilidad info"
proof -
  have "vulnerabilidad info * (1 - fr) \<le> vulnerabilidad info * 1"
    using assms by (intro mult_left_mono) simp_all
  then show ?thesis by (simp add: riesgo_dinamico_def)
qed

lemma perdidos_le:
  assumes "0 \<le> fr" "0 \<le> pop_actual info" "0 \<le> vulnerabilidad info" "vulnerabilidad info \<le> 1"
  shows "perdidos info fr \<le> pop_actual info"
proof -
  have "riesgo_dinamico info fr \<le> 1"
    using riesgo_dinamico_le [OF assms(1,3)] assms(4) by simp
  then have "of_int (pop_actual info) * riesgo_dinamico info fr \<le> of_int (pop_actual info) * 1"
    using assms(2) by (intro mult_left_mono) simp_all
  then show ?thesis by (simp add: perdidos_def py_round_le)
qed

lemma perdidos_nonneg:
  assumes "fr \<le> 1" "0 \<le> pop_actual info" "0 \<le> vulnerabilidad info"
  shows "0 \<le> perdidos info fr"
  using assms by (simp add: perdidos_def riesgo_dinamico_def py_round_nonneg)

lemma tab_especies_Inr:
  "tab_especies st info anio = Inr r \<Longrightarrow>
     frac_hielo st anio = Inr (res_frac r) \<and>
     res_riesgo r = riesgo_dinamico info (res_frac r) \<and>
     res_perdidos r = perdidos info (res_frac r) \<and>
     res_restantes r = restantes info (res_frac r) \<and>
     res_texto r = riesgo_texto (res_riesgo r)"
  by (auto simp: tab_especies_def split: sum.splits)

text \<open>
  C1 (as the claim states it, refuted). On the sample data the slider offers 1981; the
  fitted line gives 7.514 there, above the baseline 7.5, and the species tab reports
  -39 lost polar bears and 26039 remaining ones: no clamp is applied to the loss.
\<close>

theorem perdidos_negativos_1981:
  "ejecutar Fallo oso_polar 1981 =
     Inr \<lparr>res_hielo = 7.514, res_frac = 3757 / 3750, res_riesgo = - (14 / 9375),
          res_perdidos = - 39, res_restantes = 26039, res_texto = Bajo\<rparr>"
  by (simp add: ejecutar_def iniciar_Fallo tab_especies_def frac_hielo_def app_ejemplo_def
      hielo_para_anio_def datos_ejemplo_def predict_def oso_polar_def riesgo_dinamico_def
      perdidos_def restantes_def riesgo_texto_def py_round_def Let_def)

text \<open>
  C1 (amended). Whenever the species tab produces a result for a species with a
  non-negative population and a vulnerability in [0, 1]: the loss is the rounded
  product of population and dynamic risk, with no clamp; it never exceeds the
  population; it is non-negative whenever the fraction of the baseline is at most 1
  (the extent of the year does not exceed the baseline); the remaining individuals are
  the population minus the loss, they are non-negative, and the map of the ecosystem
  tab computes the same number.
\<close>

theorem perdidos_sin_recorte:
  assumes "tab_especies st info anio = Inr r"
    and "0 \<le> pop_actual info"
    and "0 \<le> vulnerabilidad info"
    and "vulnerabilidad info \<le> 1"
  shows "res_perdidos r = py_round (of_int (pop_actual info) * res_riesgo r)
       \<and> res_perdidos r \<le> pop_actual info
       \<and> (res_frac r \<le> 1 \<longrightarrow> 0 \<le> res_perdidos r)
       \<and> res_restantes r = pop_actual info - res_perdidos r
       \<and> 0 \<le> res_restantes r
       \<and> restantes_mapa info (res_frac r) = res_restantes r"
proof -
  note t = tab_especies_Inr [OF assms(1)]
  from t have f0: "0 \<le> res_frac r" by (blast intro: frac_hielo_nonneg)
  have le: "perdidos info (res_frac r) \<le> pop_actual info"
    using f0 assms(2-4) by (rule perdidos_le)
  have nn: "res_frac r \<le> 1 \<longrightarrow> 0 \<le> perdidos info (res_frac r)"
    using assms(2,3) by (simp add: perdidos_nonneg)
  show ?thesis
    using t le nn by (simp add: perdidos_def restantes_def restantes_mapa_def)
qed

theorem perdidos_sin_recorte_witness:
  "tab_especies app_ejemplo oso_polar 2000 =
     Inr \<lparr>res_hielo = 5.5, res_frac = 11 / 15, res_riesgo = 16 / 75,
          res_perdidos = 5547, res_restantes = 20453, res_texto = Moderado\<rparr>
   \<and> 0 \<le> pop_actual oso_polar \<and> 0 \<le> vulnerabilidad oso_polar \<and> vulnerabilidad oso_polar \<le> 1
   \<and> (5547::int) = py_round (of_int (pop_actual oso_polar) * (16 / 75))
   \<and> (5547::int) \<le> pop_actual oso_polar
   \<and> (11 / 15 :: real) \<le> 1 \<and> (0::int) \<le> 5547
   \<and> (20453::int) = pop_actual oso_polar - 5547
   \<and> restantes_mapa oso_polar (11 / 15) = 20453"
proof -
  have e: "tab_especies app_ejemplo oso_polar 2000 =
     Inr \<lparr>res_hielo = 5.5, res_frac = 11 / 15, res_riesgo = 16 / 75,
          res_perdidos = 5547, res_restantes = 20453, res_texto = Moderado\<rparr>"
    by (simp add: tab_especies_def frac_hielo_def app_ejemplo_def
      hielo_para_anio_def datos_ejemplo_def predict_def oso_polar_def riesgo_dinamico_def
      perdidos_def restantes_def riesgo_texto_def py_round_def Let_def)
  have p: "0 \<le> pop_actual oso_polar" "0 \<le> vulnerabilidad oso_polar" "vulnerabilidad oso_polar \<le> 1"
    by (simp_all add: oso_polar_def)
  show ?thesis
    using perdidos_sin_recorte [OF e p] e p
    by (simp add: oso_polar_def py_round_def Let_def)
qed


lemma filter_anio_distinct:
  "distinct (map fst ds) \<Longrightarrow> (anio, v) \<in> set ds \<Longrightarrow> filter (\<lambda>r. fst r = anio) ds = [(anio, v)]"
proof (induction ds)
  case Nil
  then show ?case by simp
next
  case (Cons r ds)
  show ?case
  proof (cases "r = (anio, v)")
    case True
    with Cons.prems(1) have "anio \<notin> fst ` set ds" by simp
    then have "filter (\<lambda>r. fst r = anio) ds = []"
      by (auto simp: filter_empty_conv)
    with True show ?thesis by simp
  next
    case False
    with Cons.prems(2) have in_ds: "(anio, v) \<in> set ds" by simp
    then have "anio \<in> fst ` set ds" by force
    with Cons.prems(1) have "fst r \<noteq> anio" by auto
    moreover from Cons.prems(1) have "distinct (map fst ds)" by simp
    ultimately show ?thesis using Cons.IH in_ds by simp
  qed
qed

text \<open>
  C2. In a frame whose years are all different, the extent returned for a recorded
  year is the extent of its row, whatever the fitted model is.
\<close>

theorem hielo_para_anio_registrado:
  assumes "(anio, v) \<in> set ds" and "distinct (map fst ds)"
  shows "hielo_para_anio ds m anio = v"
  using filter_anio_distinct [OF assms(2,1)] by (simp add: hielo_para_anio_def)

theorem hielo_para_anio_registrado_witness:
  "(2010, 4.2) \<in> set datos_ejemplo \<and> distinct (map fst datos_ejemplo)
   \<and> hielo_para_anio datos_ejemplo (modelo app_ejemplo) 2010 = 4.2
   \<and> predict (modelo app_ejemplo) 2010 = 4.44"
proof -
  have a: "(2010, 4.2) \<in> set datos_ejemplo" by (simp add: datos_ejemplo_def)
  have b: "distinct (map fst datos_ejemplo)" by (simp add: datos_ejemplo_def)
  have c: "predict (modelo app_ejemplo) 2010 = 4.44"
    by (simp add: predict_def app_ejemplo_def)
  show ?thesis
    using hielo_para_anio_registrado [OF a b, of "modelo app_ejemplo"] a b c by simp
qed

text \<open>
  C3 (as the claim states it, refuted). A file with a single row is loaded and fitted
  without any error: the line is the constant 5.5, and the species tab answers for
  every year of the slider.
\<close>

theorem iniciar_un_registro:
  "iniciar (Tabla [(2000, 5.5)]) =
     Inr \<lparr>datos = [(2000, 5.5)], modelo = \<lparr>coef = 0, intercept = 5.5\<rparr>, baseline_hielo = 5.5\<rparr>
   \<and> ejecutar (Tabla [(2000, 5.5)]) oso_polar 2030 =
     Inr \<lparr>res_hielo = 5.5, res_frac = 1, res_riesgo = 0,
          res_perdidos = 0, res_restantes = 26000, res_texto = Bajo\<rparr>"
  by (simp add: ejecutar_def iniciar_def fit_def sxx_def sxy_def media_def
      tab_especies_def frac_hielo_def hielo_para_anio_def predict_def oso_polar_def
      riesgo_dinamico_def perdidos_def restantes_def riesgo_texto_def py_round_def Let_def)

text \<open>
  C3 (amended). With fewer than two rows in the file that was read, no sample data are
  substituted and no dedicated error exists: with no row the fit raises ValueError,
  which ends the run; with one row the run goes on with that row, a line of slope 0
  through its extent, and that extent as the baseline.
\<close>

theorem iniciar_pocos_registros:
  "length filas < 2 \<Longrightarrow>
     iniciar (Tabla filas) =
       (case filas of
          [] \<Rightarrow> Inl ValueError
        | r # _ \<Rightarrow>
            Inr \<lparr>datos = [r], modelo = \<lparr>coef = 0, intercept = snd r\<rparr>, baseline_hielo = snd r\<rparr>)"
proof (cases filas)
  case Nil
  then show ?thesis by (simp add: iniciar_def fit_def)
next
  case (Cons r rs)
  assume "length filas < 2"
  with Cons have "rs = []" by simp
  with Cons show ?thesis
    by (simp add: iniciar_def fit_def sxx_def sxy_def media_def Let_def)
qed

theorem iniciar_pocos_registros_witness:
  "length [(2000, 5.5) :: registro] < 2
   \<and> iniciar (Tabla [(2000, 5.5)]) =
       Inr \<lparr>datos = [(2000, 5.5)], modelo = \<lparr>coef = 0, intercept = 5.5\<rparr>, baseline_hielo = 5.5\<rparr>
   \<and> length ([] :: registro list) < 2
   \<and> iniciar (Tabla []) = Inl ValueError"
  using iniciar_pocos_registros [of "[(2000, 5.5)]"] iniciar_pocos_registros [of "[]"]
  by simp

text \<open>
  C4. For a year that is not in the frame the extent is the value of the fitted line
  at that year, for every integer year and with no lower bound: where the line is
  negative, the extent returned is negative.
\<close>

theorem hielo_para_anio_no_registrado:
  assumes "anio \<notin> fst ` set ds"
  shows "hielo_para_anio ds m anio = coef m * of_int anio + intercept m
       \<and> (coef m * of_int anio + intercept m < 0 \<longrightarrow> hielo_para_anio ds m anio < 0)"
proof -
  from assms have "filter (\<lambda>r. fst r = anio) ds = []"
    by (auto simp: filter_empty_conv)
  then show ?thesis by (simp add: hielo_para_anio_def predict_def)
qed

theorem hielo_para_anio_no_registrado_witness:
  "2060 \<notin> fst ` set datos_ejemplo
   \<and> hielo_para_anio datos_ejemplo (modelo app_ejemplo) 2060 = - 0.86
   \<and> coef (modelo app_ejemplo) * of_int 2060 + intercept (modelo app_ejemplo) < 0
   \<and> hielo_para_anio datos_ejemplo (modelo app_ejemplo) 2060 < 0"
proof -
  have a: "2060 \<notin> fst ` set datos_ejemplo" by (simp add: datos_ejemplo_def)
  have b: "coef (modelo app_ejemplo) * of_int 2060 + intercept (modelo app_ejemplo) = - 0.86"
    by (simp add: app_ejemplo_def)
  show ?thesis
    using hielo_para_anio_no_registrado [OF a, of "modelo app_ejemplo"] a b by simp
qed

text \<open>
  C5. The risk level has the thresholds 0.2, 0.4 and 0.7 on the dynamic risk, each
  threshold belonging to the level above it; 0.2 itself is Moderado. The colour of the
  map marker follows the same thresholds.
\<close>

theorem riesgo_texto_umbrales:
  "(riesgo_texto rd = Bajo) = (rd < 0.2)
   \<and> (riesgo_texto rd = Moderado) = (0.2 \<le> rd \<and> rd < 0.4)
   \<and> (riesgo_texto rd = Alto) = (0.4 \<le> rd \<and> rd < 0.7)
   \<and> (riesgo_texto rd = Critico) = (0.7 \<le> rd)
   \<and> riesgo_texto 0.2 = Moderado \<and> riesgo_texto 0.4 = Alto \<and> riesgo_texto 0.7 = Critico
   \<and> riesgo_texto 0.1999 = Bajo
   \<and> color rd = (case riesgo_texto rd of
                   Bajo \<Rightarrow> [0, 200, 0] | Moderado \<Rightarrow> [255, 255, 0]
                 | Alto \<Rightarrow> [255, 165, 0] | Critico \<Rightarrow> [255, 0, 0])"
  by (simp add: riesgo_texto_def color_def)

text \<open>
  C6. The state of the ecosystem of a year, shown whenever the baseline is not 0,
  depends on the extent of that year alone, with the constants 6 and 4: above 6 it is
  Estable, from 4 to 6 (both included) it is EnRiesgo, below 4 it is EcoCritico. An
  extent of exactly 6 is EnRiesgo, not Estable, and an extent of exactly 4 is EnRiesgo.
\<close>

theorem tab_ecosistema_umbrales:
  "tab_ecosistema st anio =
     (if baseline_hielo st = 0 then Inl ZeroDivisionError
      else Inr (estado_de (hielo_para_anio (datos st) (modelo st) anio)))
   \<and> (estado_de h = Estable) = (6 < h)
   \<and> (estado_de h = EnRiesgo) = (4 \<le> h \<and> h \<le> 6)
   \<and> (estado_de h = EcoCritico) = (h < 4)
   \<and> estado_de 6 \<noteq> Estable \<and> estado_de 6 = EnRiesgo \<and> estado_de 4 = EnRiesgo"
  by (simp add: tab_ecosistema_def frac_hielo_def estado_de_def)

lemma iniciar_Inr:
  assumes "iniciar l = Inr st"
  shows "datos st = cargar l \<and> fit (cargar l) = Inr (modelo st) \<and> cargar l \<noteq> []
       \<and> baseline_hielo st = Max (snd ` set (cargar l))"
proof -
  from assms obtain m v vs where
    f: "fit (cargar l) = Inr m" and c: "map snd (cargar l) = v # vs"
    and s: "st = \<lparr>datos = cargar l, modelo = m, baseline_hielo = fold max vs v\<rparr>"
    by (auto simp: iniciar_def Let_def split: sum.splits list.splits)
  have "snd ` set (cargar l) = set (v # vs)"
    using c by (metis set_map)
  then have "Max (snd ` set (cargar l)) = fold max vs v"
    by (simp only: Max.set_eq_fold)
  with f c s show ?thesis by auto
qed

text \<open>
  C7. After a run has loaded and fitted its data, the baseline is the maximum of the
  recorded extents; when it is not 0 (the recorded extents are positive), the fraction
  of every year is max(0, extent / baseline), hence never negative.
\<close>

theorem frac_hielo_no_negativa:
  assumes "iniciar l = Inr st" and "baseline_hielo st \<noteq> 0"
  shows "baseline_hielo st = Max (snd ` set (datos st))
       \<and> frac_hielo st anio =
           Inr (max 0 (hielo_para_anio (datos st) (modelo st) anio / baseline_hielo st))
       \<and> 0 \<le> max 0 (hielo_para_anio (datos st) (modelo st) anio / baseline_hielo st)"
  using iniciar_Inr [OF assms(1)] assms(2) by (simp add: frac_hielo_def)

theorem frac_hielo_no_negativa_witness:
  "iniciar Fallo = Inr app_ejemplo \<and> baseline_hielo app_ejemplo \<noteq> 0
   \<and> baseline_hielo app_ejemplo = Max (snd ` set (datos app_ejemplo))
   \<and> hielo_para_anio (datos app_ejemplo) (modelo app_ejemplo) 2052 = - 0.012
   \<and> frac_hielo app_ejemplo 2052 = Inr 0"
proof -
  have b: "baseline_hielo app_ejemplo \<noteq> 0" by (simp add: app_ejemplo_def)
  have h: "hielo_para_anio (datos app_ejemplo) (modelo app_ejemplo) 2052 = - 0.012"
    by (simp add: app_ejemplo_def hielo_para_anio_def datos_ejemplo_def predict_def)
  show ?thesis
    using frac_hielo_no_negativa [OF iniciar_Fallo b, of 2052] iniciar_Fallo b h
    by (simp add: app_ejemplo_def)
qed

text \<open>
  C8. The run on the sample data (no file), polar bear, year 2000.
\<close>

theorem ejemplo_oso_polar_2000:
  "cargar Fallo = [(1980, 7.5), (1990, 6.8), (2000, 5.5), (2010, 4.2), (2020, 3.5)]
   \<and> map_of especies ''Oso polar'' = Some oso_polar
   \<and> vulnerabilidad oso_polar = 0.8 \<and> pop_actual oso_polar = 26000
   \<and> ejecutar Fallo oso_polar 2000 =
       Inr \<lparr>res_hielo = 5.5, res_frac = 5.5 / 7.5, res_riesgo = 0.8 * (1 - 5.5 / 7.5),
            res_perdidos = 5547, res_restantes = 20453, res_texto = Moderado\<rparr>"
  by (simp add: ejecutar_def iniciar_Fallo tab_especies_def frac_hielo_def app_ejemplo_def
      hielo_para_anio_def datos_ejemplo_def predict_def oso_polar_def riesgo_dinamico_def
      perdidos_def restantes_def riesgo_texto_def py_round_def Let_def especies_def)


lemma suma_centrada:
  fixes f g :: "'a \<Rightarrow> real"
  shows "(\<Sum>r\<leftarrow>ds. (f r - a) * (g r - b)) =
           (\<Sum>r\<leftarrow>ds. f r * g r) - a * (\<Sum>r\<leftarrow>ds. g r) - b * (\<Sum>r\<leftarrow>ds. f r)
             + of_nat (length ds) * a * b"
  by (induction ds) (simp_all add: algebra_simps)

lemma sxy_por_n:
  assumes "ds \<noteq> []"
  shows "of_nat (length ds) * sxy ds =
           of_nat (length ds) * (\<Sum>r\<leftarrow>ds. of_int (fst r) * snd r)
             - (\<Sum>r\<leftarrow>ds. of_int (fst r)) * (\<Sum>r\<leftarrow>ds. snd r)"
proof -
  define n :: real where "n = of_nat (length ds)"
  define sx :: real where "sx = (\<Sum>r\<leftarrow>ds. of_int (fst r))"
  define sy :: real where "sy = (\<Sum>r\<leftarrow>ds. snd r)"
  define p :: real where "p = (\<Sum>r\<leftarrow>ds. of_int (fst r) * snd r)"
  from assms have n0: "n \<noteq> 0" by (simp add: n_def)
  have "sxy ds = p - (sx / n) * sy - (sy / n) * sx + n * (sx / n) * (sy / n)"
    unfolding sxy_def media_def
    by (simp only: suma_centrada n_def sx_def sy_def p_def length_map)
  also have "n * \<dots> = n * p - sx * sy"
    using n0 by (simp add: field_simps)
  finally show ?thesis by (simp add: n_def sx_def sy_def p_def)
qed

lemma suma_por_indices:
  fixes f :: "'a \<Rightarrow> real"
  shows "(\<Sum>r\<leftarrow>ds. f r) = (\<Sum>k = 0..<length ds. f (ds ! k))"
  by (simp add: sum_list_sum_nth)

lemma sxy_nonpos:
  assumes "sorted (map fst ds)" and "sorted_wrt (\<ge>) (map snd ds)"
  shows "sxy ds \<le> 0"
proof (cases "ds = []")
  case True
  then show ?thesis by (simp add: sxy_def)
next
  case False
  let ?n = "length ds"
  let ?a = "\<lambda>k. real_of_int (fst (ds ! k))"
  let ?b = "\<lambda>k. snd (ds ! k)"
  have a: "?a i \<le> ?a j" if "i \<le> j" "j < ?n" for i j
  proof -
    from assms(1) that have "map fst ds ! i \<le> map fst ds ! j"
      by (simp only: sorted_iff_nth_mono length_map)
    with that show ?thesis by simp
  qed
  have b: "?b j \<le> ?b i" if "i \<le> j" "j < ?n" for i j
  proof (cases "i = j")
    case True
    then show ?thesis by simp
  next
    case False
    with that have "i < j" by simp
    with assms(2) that have "map snd ds ! j \<le> map snd ds ! i"
      by (simp only: sorted_wrt_iff_nth_less length_map)
    with that \<open>i < j\<close> show ?thesis by simp
  qed
  have "of_nat ?n * (\<Sum>k = 0..<?n. ?a k * ?b k) \<le> (\<Sum>k = 0..<?n. ?a k) * (\<Sum>k = 0..<?n. ?b k)"
    using a b by (rule Chebyshev_sum_upper)
  then have "of_nat ?n * sxy ds \<le> 0"
    by (simp add: sxy_por_n [OF False] suma_por_indices)
  moreover from False have "0 < real ?n" by simp
  ultimately show ?thesis by (simp add: mult_le_0_iff)
qed

lemma sxx_nonneg: "0 \<le> sxx ds"
  unfolding sxx_def by (rule sum_list_nonneg) auto

text \<open>
  C9. When the rows are in ascending order of year and the extents do not increase
  along them, the slope of the fitted line is negative or zero.
\<close>

theorem coef_no_positivo:
  assumes "fit ds = Inr m"
    and "sorted (map fst ds)"
    and "sorted_wrt (\<ge>) (map snd ds)"
  shows "coef m \<le> 0"
proof -
  from assms(1) have "coef m = (if sxx ds = 0 then 0 else sxy ds / sxx ds)"
    by (auto simp: fit_def Let_def split: if_splits)
  then show ?thesis
    using sxy_nonpos [OF assms(2,3)] sxx_nonneg [of ds]
    by (simp add: divide_nonpos_nonneg)
qed

theorem coef_no_positivo_witness:
  "fit datos_ejemplo = Inr (modelo app_ejemplo)
   \<and> sorted (map fst datos_ejemplo) \<and> sorted_wrt (\<ge>) (map snd datos_ejemplo)
   \<and> coef (modelo app_ejemplo) = - 0.106 \<and> coef (modelo app_ejemplo) \<le> 0"
proof -
  have f: "fit datos_ejemplo = Inr (modelo app_ejemplo)"
    by (simp add: fit_datos_ejemplo app_ejemplo_def)
  have s: "sorted (map fst datos_ejemplo)" "sorted_wrt (\<ge>) (map snd datos_ejemplo)"
    by (simp_all add: datos_ejemplo_def)
  show ?thesis
    using coef_no_positivo [OF f s] f s by (simp add: app_ejemplo_def)
qed

text \<open>
  C10. Whenever the species tab produces a result for a species of non-negative
  vulnerability, the dynamic risk is the vulnerability times (1 - fraction) with a
  fraction that is never negative, so it never exceeds the vulnerability; a species of
  vulnerability below 0.7 is therefore never Critico (nor is its map marker red), and
  among the four species of the script only the polar bear can be.
\<close>

theorem riesgo_acotado_por_vulnerabilidad:
  assumes "tab_especies st info anio = Inr r" and "0 \<le> vulnerabilidad info"
  shows "res_riesgo r = vulnerabilidad info * (1 - res_frac r)
       \<and> 0 \<le> res_frac r
       \<and> res_riesgo r \<le> vulnerabilidad info
       \<and> (vulnerabilidad info < 0.7 \<longrightarrow>
            res_texto r \<noteq> Critico \<and> color (res_riesgo r) \<noteq> [255, 0, 0])
       \<and> (info \<in> snd ` set especies \<longrightarrow> res_texto r = Critico \<longrightarrow> info = oso_polar)"
proof -
  note t = tab_especies_Inr [OF assms(1)]
  from t have f0: "0 \<le> res_frac r" by (blast intro: frac_hielo_nonneg)
  from t have rd: "res_riesgo r = riesgo_dinamico info (res_frac r)" by simp
  have le: "res_riesgo r \<le> vulnerabilidad info"
    unfolding rd using f0 assms(2) by (rule riesgo_dinamico_le)
  have tx: "res_texto r = riesgo_texto (res_riesgo r)" using t by simp
  have low: "res_texto r \<noteq> Critico \<and> color (res_riesgo r) \<noteq> [255, 0, 0]"
    if "vulnerabilidad info < 0.7"
    using that le by (simp add: tx riesgo_texto_def color_def)
  have "info = oso_polar" if "info \<in> snd ` set especies" "res_texto r = Critico"
  proof (rule ccontr)
    assume "info \<noteq> oso_polar"
    with that(1) have "vulnerabilidad info < 0.7"
      by (auto simp: especies_def foca_anillada_def morsa_def narval_def)
    with low that(2) show False by simp
  qed
  with rd f0 le low show ?thesis by (simp add: riesgo_dinamico_def)
qed

theorem riesgo_acotado_por_vulnerabilidad_witness:
  "tab_especies app_ejemplo narval 2050 =
     Inr \<lparr>res_hielo = 0.2, res_frac = 2 / 75, res_riesgo = 146 / 375,
          res_perdidos = 31147, res_restantes = 48853, res_texto = Moderado\<rparr>
   \<and> 0 \<le> vulnerabilidad narval \<and> vulnerabilidad narval < 0.7
   \<and> (146 / 375 :: real) \<le> vulnerabilidad narval
   \<and> color (146 / 375) \<noteq> [255, 0, 0]
   \<and> tab_especies app_ejemplo oso_polar 2050 =
     Inr \<lparr>res_hielo = 0.2, res_frac = 2 / 75, res_riesgo = 292 / 375,
          res_perdidos = 20245, res_restantes = 5755, res_texto = Critico\<rparr>
   \<and> 0 \<le> vulnerabilidad oso_polar \<and> oso_polar \<in> snd ` set especies
   \<and> (292 / 375 :: real) \<le> vulnerabilidad oso_polar"
proof -
  have n: "tab_especies app_ejemplo narval 2050 =
     Inr \<lparr>res_hielo = 0.2, res_frac = 2 / 75, res_riesgo = 146 / 375,
          res_perdidos = 31147, res_restantes = 48853, res_texto = Moderado\<rparr>"
    by (simp add: tab_especies_def frac_hielo_def app_ejemplo_def
      hielo_para_anio_def datos_ejemplo_def predict_def narval_def riesgo_dinamico_def
      perdidos_def restantes_def riesgo_texto_def py_round_def Let_def)
  have o: "tab_especies app_ejemplo oso_polar 2050 =
     Inr \<lparr>res_hielo = 0.2, res_frac = 2 / 75, res_riesgo = 292 / 375,
          res_perdidos = 20245, res_restantes = 5755, res_texto = Critico\<rparr>"
    by (simp add: tab_especies_def frac_hielo_def app_ejemplo_def
      hielo_para_anio_def datos_ejemplo_def predict_def oso_polar_def riesgo_dinamico_def
      perdidos_def restantes_def riesgo_texto_def py_round_def Let_def)
  have vn: "0 \<le> vulnerabilidad narval" "vulnerabilidad narval < 0.7"
    by (simp_all add: narval_def)
  have vo: "0 \<le> vulnerabilidad oso_polar" by (simp add: oso_polar_def)
  have mo: "oso_polar \<in> snd ` set especies" by (simp add: especies_def)
  show ?thesis
    using riesgo_acotado_por_vulnerabilidad [OF n vn(1)]
      riesgo_acotado_por_vulnerabilidad [OF o vo] n o vn vo mo
    by simp
qed

end
